theory Spec2Isabelle
  imports Main
begin

section \<open>Exceptions and log records\<close>

text \<open>
  The exception classes that the two modules can meet. \<open>ModuleNotFoundError\<close> is a
  subclass of \<open>ImportError\<close>; every class below except \<open>NonException\<close> derives from
  \<open>Exception\<close>. \<open>NonException\<close> stands for the classes that derive from
  \<open>BaseException\<close> only (\<open>KeyboardInterrupt\<close>, \<open>SystemExit\<close>, \<open>GeneratorExit\<close>), which
  an \<open>except Exception\<close> clause does not catch.
\<close>

datatype exn =
    ImportError
  | ModuleNotFoundError
  | AttributeError
  | OSError
  | IndexError
  | KeyError
  | OtherException string
  | NonException string

fun isinstance_ImportError :: "exn \<Rightarrow> bool" where
  "isinstance_ImportError ImportError = True"
| "isinstance_ImportError ModuleNotFoundError = True"
| "isinstance_ImportError _ = False"

fun isinstance_Exception :: "exn \<Rightarrow> bool" where
  "isinstance_Exception (NonException _) = False"
| "isinstance_Exception _ = True"

text \<open>The value \<open>None\<close>, which a Python function without a \<open>return\<close> statement returns.\<close>

datatype pynone = PyNone

text \<open>
  \<open>logger.exception(fmt, arg)\<close> emits a record of level \<open>ERROR\<close> whose message is
  \<open>fmt % arg\<close> and which carries the exception being handled.
\<close>

datatype loglevel = WARNING | ERROR

datatype log_record = LogRecord loglevel string exn

definition logger_exception :: "string \<Rightarrow> string \<Rightarrow> string \<Rightarrow> exn \<Rightarrow> log_record" where
  "logger_exception before arg after e = LogRecord ERROR (before @ arg @ after) e"

section \<open>load_conf.load\<close>

text \<open>
  A plugin module is seen through the one call the dispatcher makes on it:
  \<open>loader.load_objs(info)\<close>, which returns the objects or raises (a module without the
  attribute \<open>load_objs\<close> raises \<open>AttributeError\<close> there).

  The module \<open>importlib\<close> is a namespace: a partial map from attribute names to the
  callables of type "module name to module". Reading an attribute that the namespace does not
  have raises \<open>AttributeError\<close>.
\<close>

type_synonym ('i, 'o) loader = "'i \<Rightarrow> exn + 'o"

type_synonym ('i, 'o) importlib_ns = "string \<rightharpoonup> (string \<Rightarrow> exn + ('i, 'o) loader)"

definition getattr_call :: "('i, 'o) importlib_ns \<Rightarrow> string \<Rightarrow> string \<Rightarrow> exn + ('i, 'o) loader" where
  "getattr_call ns attr arg = (case ns attr of None \<Rightarrow> Inl AttributeError | Some f \<Rightarrow> f arg)"

text \<open>
  The standard library's \<open>importlib\<close> exports \<open>import_module\<close> (together with
  \<open>__import__\<close>, \<open>reload\<close>, \<open>invalidate_caches\<close> and its submodules); it has no attribute
  named \<open>import_header\<close>. The argument is what importing a module by name does in the
  running interpreter.
\<close>

definition stdlib_importlib :: "(string \<Rightarrow> exn + ('i, 'o) loader) \<Rightarrow> ('i, 'o) importlib_ns" where
  "stdlib_importlib import_module = [''import_module'' \<mapsto> import_module]"

text \<open>
  A configuration document: the headers with their info blocks, in the order of the file.
\<close>

type_synonym 'i document = "(string \<times> 'i) list"

text \<open>
  The loop of \<open>load\<close> over \<open>conf.items()\<close>, with the local dictionary \<open>all_objs\<close> and the
  log written so far as accumulators. An exception that no handler of the loop body catches
  ends the loop and leaves \<open>load\<close>; the records logged before it stay logged. The first
  statement of the body, \<open>objs = []\<close>, has no effect: on every path \<open>objs\<close> is assigned
  again or the iteration ends at \<open>continue\<close> before it is read.
\<close>

fun load_loop :: "('i, 'o) importlib_ns \<Rightarrow> 'i document \<Rightarrow> (string \<rightharpoonup> 'o) \<Rightarrow> log_record list
    \<Rightarrow> (exn + (string \<rightharpoonup> 'o)) \<times> log_record list" where
  "load_loop importlib [] all_objs lg = (Inr all_objs, lg)"
| "load_loop importlib ((header, info) # rest) all_objs lg =
     (case getattr_call importlib ''import_header'' (''hutch_python.yaml_'' @ header) of
        Inl e \<Rightarrow>
          if isinstance_ImportError e
          then load_loop importlib rest all_objs
                 (lg @ [logger_exception ''ImportError when including '' header ''. Skipping.'' e])
          else (Inl e, lg)
      | Inr loader \<Rightarrow>
          (case loader info of
             Inl e \<Rightarrow>
               if isinstance_Exception e
               then load_loop importlib rest all_objs
                      (lg @ [logger_exception ''Exception thrown when building '' header
                               '' objects. Skipping'' e])
               else (Inl e, lg)
           | Inr objs \<Rightarrow> load_loop importlib rest (all_objs(header \<mapsto> objs)) lg))"

text \<open>
  \<open>load(filename)\<close>. Opening the file and parsing it are the environment's part: the
  argument \<open>read_yaml\<close> gives, for a file name, the sequence of top-level elements that
  \<open>yaml.load\<close> returns, or the exception that opening or parsing raises. \<open>[0]\<close> takes the
  first element, the document \<open>conf\<close>, and raises \<open>IndexError\<close> on an empty sequence. The
  function has no \<open>return\<close> statement: when the loop ends, \<open>all_objs\<close> is dropped and the
  result is \<open>None\<close>.
\<close>

definition load :: "('i, 'o) importlib_ns \<Rightarrow> (string \<Rightarrow> exn + 'i document list) \<Rightarrow> string
    \<Rightarrow> (exn + pynone) \<times> log_record list" where
  "load importlib read_yaml filename =
     (case read_yaml filename of
        Inl e \<Rightarrow> (Inl e, [])
      | Inr docs \<Rightarrow>
          (case docs of
             [] \<Rightarrow> (Inl IndexError, [])
           | conf # others \<Rightarrow>
               (case load_loop importlib conf Map.empty [] of
                  (Inl e, lg) \<Rightarrow> (Inl e, lg)
                | (Inr all_objs, lg) \<Rightarrow> (Inr PyNone, lg))))"

section \<open>Strings, dictionaries and paths\<close>

text \<open>\<open>s.split(c)\<close> for a one-character separator: the result is never empty.\<close>

fun split_sep :: "char \<Rightarrow> string \<Rightarrow> string list" where
  "split_sep c [] = [] # []"
| "split_sep c (x # xs) =
     (if x = c then [] # split_sep c xs
      else (case split_sep c xs of [] \<Rightarrow> [x] # [] | w # ws \<Rightarrow> (x # w) # ws))"

text \<open>\<open>sep.join(xs)\<close>.\<close>

fun join :: "string \<Rightarrow> string list \<Rightarrow> string" where
  "join sep [] = []"
| "join sep [x] = x"
| "join sep (x # y # ys) = x @ sep @ join sep (y # ys)"

text \<open>
  A Python \<open>dict\<close> with string keys keeps its entries in insertion order: storing under a key
  that is present replaces the value where the entry stands, storing under a new key appends.
\<close>

fun dict_setitem :: "string \<Rightarrow> 'v \<Rightarrow> (string \<times> 'v) list \<Rightarrow> (string \<times> 'v) list" where
  "dict_setitem k v [] = [(k, v)]"
| "dict_setitem k v ((k', v') # d) =
     (if k' = k then (k, v) # d else (k', v') # dict_setitem k v d)"

text \<open>\<open>d.update(**kw)\<close>: the keyword arguments are stored one after the other.\<close>

definition dict_update :: "(string \<times> 'v) list \<Rightarrow> (string \<times> 'v) list \<Rightarrow> (string \<times> 'v) list" where
  "dict_update d kw = fold (\<lambda>(k, v) acc. dict_setitem k v acc) kw d"

text \<open>
  A pure POSIX path, as \<open>pathlib\<close> keeps it: the root (empty for a relative path, one slash,
  or two slashes when the text starts with exactly two) and the components. Parsing drops
  empty components and the component that is a single dot.
\<close>

record path =
  path_root :: string
  path_parts :: "string list"

definition Path :: "string \<Rightarrow> path" where
  "Path s =
     \<lparr>path_root = (if take 2 s = ''//'' \<and> take 3 s \<noteq> ''///'' then ''//''
                   else if take 1 s = ''/'' then ''/'' else ''''),
      path_parts = filter (\<lambda>p. p \<noteq> '''' \<and> p \<noteq> ''.'') (split_sep CHR ''/'' s)\<rparr>"

text \<open>\<open>a / b\<close> on paths: an absolute right operand replaces the left one.\<close>

definition truediv :: "path \<Rightarrow> path \<Rightarrow> path" where
  "truediv a b =
     (if path_root b \<noteq> '''' then b
      else \<lparr>path_root = path_root a, path_parts = path_parts a @ path_parts b\<rparr>)"

section \<open>Objects and the interpreter state\<close>

text \<open>
  Objects held by the namespace are opaque to the cache; \<open>write_file\<close> reads only their
  class. \<open>str\<close> of a class is \<open><class 'qualname'>\<close> for a builtin and
  \<open><class 'module.qualname'>\<close> otherwise.
\<close>

datatype pyclass = PyClass (cls_module: string) (cls_qualname: string)

datatype pyobj = PyInt int | PyStr string | PyInstance pyclass nat

fun class_of :: "pyobj \<Rightarrow> pyclass" where
  "class_of (PyInt n) = PyClass ''builtins'' ''int''"
| "class_of (PyStr s) = PyClass ''builtins'' ''str''"
| "class_of (PyInstance c i) = c"

definition str_class :: "pyclass \<Rightarrow> string" where
  "str_class c =
     (if cls_module c = ''builtins'' then ''<class '' @ [CHR 0x27] @ cls_qualname c @ [CHR 0x27] @ ''>''
      else ''<class '' @ [CHR 0x27] @ cls_module c @ ''.'' @ cls_qualname c @ [CHR 0x27] @ ''>'')"

text \<open>
  The part of the interpreter and of its environment that \<open>cache.py\<close> touches: the namespace
  objects by identity (each with its \<open>__dict__\<close>), the next unused identity, the table
  \<open>sys.modules\<close>, and the file system (the text of each file, and whether a path can be
  opened for writing).
\<close>

type_synonym addr = nat

type_synonym namespace = "(string \<times> pyobj) list"

record pystate =
  heap :: "addr \<Rightarrow> namespace"
  next_addr :: addr
  sys_modules :: "string \<rightharpoonup> addr"
  files :: "path \<rightharpoonup> string"
  can_open :: "path \<Rightarrow> bool"

text \<open>
  Modelled from the spec: the class \<open>IterableNamespace\<close> of \<open>utils.py\<close>, which is not among
  the sources. The spec describes it as an insertion-ordered, attribute-addressable mapping
  from name to object, seeded with the initial objects; constructing one makes a new object
  whose \<open>__dict__\<close> holds the keyword arguments.
\<close>

definition IterableNamespace :: "(string \<times> pyobj) list \<Rightarrow> pystate \<Rightarrow> addr \<times> pystate" where
  "IterableNamespace kw st =
     (next_addr st,
      st\<lparr>heap := (heap st)(next_addr st := dict_update [] kw), next_addr := Suc (next_addr st)\<rparr>)"

section \<open>cache.LoadCache\<close>

record LoadCache =
  objs :: addr
  hutch_dir :: "path option"
  module :: string

text \<open>\<open>LoadCache.__init__(self, module, hutch_dir=None, **objs)\<close>.\<close>

definition LoadCache_init :: "string \<Rightarrow> path option \<Rightarrow> (string \<times> pyobj) list \<Rightarrow> pystate
    \<Rightarrow> LoadCache \<times> pystate" where
  "LoadCache_init modname dir kw st =
     (let (a, st1) = IterableNamespace kw st;
          self = \<lparr>objs = a, hutch_dir = dir, module = modname\<rparr>;
          st2 = st1\<lparr>sys_modules := (sys_modules st1)(modname \<mapsto> objs self)\<rparr>;
          st3 = st2\<lparr>sys_modules := (sys_modules st2)(''hutch_python.db'' \<mapsto> objs self)\<rparr>
      in (self, st3))"

text \<open>\<open>LoadCache.__call__(self, **objs)\<close>: \<open>self.objs.__dict__.update(**objs)\<close>.\<close>

definition LoadCache_call :: "LoadCache \<Rightarrow> (string \<times> pyobj) list \<Rightarrow> pystate \<Rightarrow> pystate" where
  "LoadCache_call self kw st =
     st\<lparr>heap := (heap st)(objs self := dict_update (heap st (objs self)) kw)\<rparr>"

text \<open>
  The two templates at the end of \<open>cache.py\<close> with their fields filled in. In the
  triple-quoted \<open>header\<close> every written \<open>\n\<close> is followed by the line break of the source
  text, and the text starts and ends with a line break.
\<close>

definition nl :: string where
  "nl = [CHR 0x0A]"

definition header_format :: "string \<Rightarrow> string" where
  "header_format p =
     nl @ ''The objects referenced in this file are populated by the '' @ p @ ''python'' @ nl @ nl
     @ ''initialization. If you wish to use devices from this file, import'' @ nl @ nl
     @ ''them from '' @ p @ ''.db after calling the '' @ p @ ''python startup script.'' @ nl @ nl
     @ nl"

definition body_format :: "string \<Rightarrow> string" where
  "body_format now =
     ''hutch-python last loaded on '' @ now @ nl @ ''with the following objects:'' @ nl @ nl"

text \<open>
  \<open>'{:<20} {}\n'.format(name, cls)\<close>: the name left-aligned in a field of width 20 (spaces
  added after it, nothing cut), a space, \<open>str(cls)\<close>, a line break.
\<close>

definition line_format :: "string \<Rightarrow> pyclass \<Rightarrow> string" where
  "line_format name c =
     name @ replicate (20 - length name) CHR '' '' @ '' '' @ str_class c @ nl"

text \<open>
  \<open>LoadCache.write_file(self)\<close>. The argument \<open>now\<close> is the text of
  \<open>datetime.datetime.now()\<close> at the call. Opening the path for writing either fails with
  \<open>OSError\<close> or gives a file that holds exactly the text written once the \<open>with\<close> block
  is left.
\<close>

definition write_file :: "string \<Rightarrow> LoadCache \<Rightarrow> pystate \<Rightarrow> (exn + pynone) \<times> pystate" where
  "write_file now self st =
     (case hutch_dir self of
        None \<Rightarrow> (Inr PyNone, st)
      | Some dir \<Rightarrow>
          (let parts = split_sep CHR ''.'' (module self) in
           if parts = [] then (Inl IndexError, st)
           else
             (let parts = parts[length parts - 1 := parts ! (length parts - 1) @ ''.txt''];
                  db_path = truediv dir (Path (join ''/'' parts));
                  text = header_format (parts ! 0) @ body_format now;
                  text = fold (\<lambda>(name, obj) text. text @ line_format name (class_of obj))
                           (heap st (objs self)) text
              in if can_open st db_path
                 then (Inr PyNone, st\<lparr>files := (files st)(db_path \<mapsto> text)\<rparr>)
                 else (Inl OSError, st))))"

section \<open>Notions used in the statements\<close>

subsection \<open>Dispatch\<close>


subsection \<open>Module table\<close>

text \<open>
  What code elsewhere in the process does with an entry of \<open>sys.modules\<close>:
  \<open>setattr(sys.modules[name], k, v)\<close> and \<open>getattr(sys.modules[name], k)\<close>.
\<close>

definition module_setattr :: "string \<Rightarrow> string \<Rightarrow> pyobj \<Rightarrow> pystate \<Rightarrow> exn + pystate" where
  "module_setattr name k v st =
     (case sys_modules st name of
        None \<Rightarrow> Inl KeyError
      | Some a \<Rightarrow> Inr (st\<lparr>heap := (heap st)(a := dict_setitem k v (heap st a))\<rparr>))"

definition module_getattr :: "string \<Rightarrow> string \<Rightarrow> pystate \<Rightarrow> exn + pyobj" where
  "module_getattr name k st =
     (case sys_modules st name of
        None \<Rightarrow> Inl KeyError
      | Some a \<Rightarrow> (case map_of (heap st a) k of None \<Rightarrow> Inl AttributeError | Some v \<Rightarrow> Inr v))"

definition set_then_get :: "string \<Rightarrow> string \<Rightarrow> string \<Rightarrow> pyobj \<Rightarrow> pystate \<Rightarrow> exn + pyobj" where
  "set_then_get name1 name2 k v st =
     (case module_setattr name1 k v st of Inl e \<Rightarrow> Inl e | Inr st' \<Rightarrow> module_getattr name2 k st')"

subsection \<open>Manifest\<close>

text \<open>
  The intermediate values of \<open>write_file\<close>: the list \<open>parts\<close> after its last element was
  extended, the path \<open>db_path\<close>, and the text appended for one entry of the namespace.
\<close>

definition txt_parts :: "string \<Rightarrow> string list" where
  "txt_parts modname =
     (let parts = split_sep CHR ''.'' modname
      in parts[length parts - 1 := parts ! (length parts - 1) @ ''.txt''])"

definition db_path_of :: "path \<Rightarrow> string \<Rightarrow> path" where
  "db_path_of dir modname = truediv dir (Path (join ''/'' (txt_parts modname)))"

definition entry_line :: "string \<times> pyobj \<Rightarrow> string" where
  "entry_line e = line_format (fst e) (class_of (snd e))"

text \<open>The manifest around the timestamp: everything before it and everything after it.\<close>

definition manifest_before :: "string \<Rightarrow> string" where
  "manifest_before modname =
     header_format (txt_parts modname ! 0) @ ''hutch-python last loaded on ''"

definition manifest_after :: "namespace \<Rightarrow> string" where
  "manifest_after entries =
     nl @ ''with the following objects:'' @ nl @ nl @ concat (map entry_line entries)"

text \<open>
  The output path in the words of the specification: under the manifest root, one directory
  component per dotted segment, the last segment renamed to \<open><segment>.txt\<close>. A module path
  has plain segments when no segment is empty or contains a slash.
\<close>

definition spec_manifest_path :: "path \<Rightarrow> string \<Rightarrow> path" where
  "spec_manifest_path dir modname =
     (let segs = split_sep CHR ''.'' modname
      in \<lparr>path_root = path_root dir,
          path_parts = path_parts dir @ butlast segs @ [last segs @ ''.txt'']\<rparr>)"

definition plain_segments :: "string \<Rightarrow> bool" where
  "plain_segments modname =
     list_all (\<lambda>seg. seg \<noteq> [] \<and> CHR ''/'' \<notin> set seg) (split_sep CHR ''.'' modname)"

text \<open>
  The manifest in the words of the specification: the header for the top-level package, the
  timestamp block, and per entry the name left-padded to 20 columns (spaces in front of it),
  a space and the runtime type.
\<close>

definition spec_entry_line :: "string \<times> pyobj \<Rightarrow> string" where
  "spec_entry_line e =
     replicate (20 - length (fst e)) CHR '' '' @ fst e @ '' '' @ str_class (class_of (snd e)) @ nl"

definition spec_manifest :: "string \<Rightarrow> string \<Rightarrow> namespace \<Rightarrow> string" where
  "spec_manifest package now entries =
     header_format package @ body_format now @ concat (map spec_entry_line entries)"

section \<open>Example inputs\<close>

text \<open>
  An interpreter in which no namespace exists yet and every path can be opened; a cache for a
  module path holding the one object \<open>x = 5\<close>; the directory \<open>/reg\<close>.
\<close>

definition fresh_interpreter :: pystate where
  "fresh_interpreter =
     \<lparr>heap = (\<lambda>a. []), next_addr = 0, sys_modules = Map.empty, files = Map.empty,
      can_open = (\<lambda>p. True)\<rparr>"

definition xpp_cache :: "path option \<Rightarrow> string \<Rightarrow> LoadCache \<times> pystate" where
  "xpp_cache dir modname = LoadCache_init modname dir [(''x'', PyInt 5)] fresh_interpreter"

definition reg_dir :: path where
  "reg_dir = \<lparr>path_root = ''/'', path_parts = [''reg'']\<rparr>"

text \<open>A configuration file that opens and parses to the single document \<open>conf\<close>.\<close>

definition parses_to :: "'i document \<Rightarrow> string \<Rightarrow> exn + 'i document list" where
  "parses_to conf filename = Inr (conf # [])"

text \<open>
  Three installations: one where no plugin module can be imported; one with the plugin
  modules \<open>hutch_python.yaml_a\<close>, \<open>hutch_python.yaml_b\<close> and \<open>hutch_python.yaml_c\<close>, of which
  the second raises a \<open>RuntimeError\<close> in \<open>load_objs\<close>; and the same three modules with the
  second one returning its objects.
\<close>

definition no_plugins :: "string \<Rightarrow> exn + (string, namespace) loader" where
  "no_plugins name = Inl ModuleNotFoundError"

definition three_plugins :: "string \<Rightarrow> exn + (string, namespace) loader" where
  "three_plugins name =
     (if name = ''hutch_python.yaml_a'' then Inr (\<lambda>info. Inr [(''x'', PyInt 1)])
      else if name = ''hutch_python.yaml_b'' then Inr (\<lambda>info. Inl (OtherException ''RuntimeError''))
      else if name = ''hutch_python.yaml_c'' then Inr (\<lambda>info. Inr [(''z'', PyInt 3)])
      else Inl ModuleNotFoundError)"


section \<open>Basic facts\<close>

subsection \<open>The dispatch loop\<close>

text \<open>With the standard \<open>importlib\<close> the first header of any document ends the loop.\<close>

lemma load_loop_missing_attr:
  "load_loop (stdlib_importlib imp) ((header, info) # rest) all_objs lg = (Inl AttributeError, lg)"
  by (simp add: getattr_call_def stdlib_importlib_def)

lemma load_stdlib_nonempty:
  "load (stdlib_importlib imp) (parses_to ((header, info) # rest)) filename
     = (Inl AttributeError, [])"
  by (simp add: load_def parses_to_def getattr_call_def stdlib_importlib_def)









subsection \<open>Strings, dictionaries and paths\<close>

lemma split_sep_nonempty: "split_sep c s \<noteq> []"
  by (induction s) (auto split: list.splits)

lemma split_sep_no_sep: "w \<in> set (split_sep c s) \<Longrightarrow> c \<notin> set w"
  by (induction s arbitrary: w) (auto split: list.splits if_splits)

lemma split_sep_plain: "c \<notin> set s \<Longrightarrow> split_sep c s = [s]"
  by (induction s) auto

lemma split_sep_append:
  "c \<notin> set x \<Longrightarrow> split_sep c (x @ c # s) = x # split_sep c s"
  by (induction x) (auto split: list.splits)

lemma split_sep_join:
  "xs \<noteq> [] \<Longrightarrow> \<forall>x\<in>set xs. c \<notin> set x \<Longrightarrow> split_sep c (join [c] xs) = xs"
proof (induction "[c]" xs rule: join.induct)
  case 1
  then show ?case by simp
next
  case (2 x)
  then show ?case by (simp add: split_sep_plain)
next
  case (3 x y ys)
  then show ?case by (simp add: split_sep_append)
qed

lemma fold_lines:
  "fold (\<lambda>(name, obj) text. text @ line_format name (class_of obj)) d acc
     = acc @ concat (map entry_line d)"
  by (induction d arbitrary: acc) (auto simp: entry_line_def)

lemma write_file_unfold:
  assumes "hutch_dir self = Some dir"
  shows "write_file now self st =
     (if can_open st (db_path_of dir (module self))
      then (Inr PyNone,
            st\<lparr>files := (files st)(db_path_of dir (module self) \<mapsto>
                  header_format (txt_parts (module self) ! 0) @ body_format now
                  @ concat (map entry_line (heap st (objs self))))\<rparr>)
      else (Inl OSError, st))"
  using assms
  by (simp add: write_file_def Let_def split_sep_nonempty fold_lines db_path_of_def txt_parts_def)

lemma map_of_dict_setitem: "map_of (dict_setitem k v d) = (map_of d)(k \<mapsto> v)"
  by (induction d) (auto)

lemma keys_dict_setitem:
  "map fst (dict_setitem k v d) = (if k \<in> set (map fst d) then map fst d else map fst d @ [k])"
  by (induction d) (auto simp: rev_image_eqI)

lemma distinct_dict_setitem:
  "distinct (map fst d) \<Longrightarrow> distinct (map fst (dict_setitem k v d))"
  by (simp add: keys_dict_setitem)

lemma distinct_dict_update:
  "distinct (map fst d) \<Longrightarrow> distinct (map fst (dict_update d kw))"
  unfolding dict_update_def
  by (induction kw arbitrary: d) (auto simp: distinct_dict_setitem)

lemma LoadCache_init_distinct:
  "distinct (map fst (heap (snd (LoadCache_init modname dir kw st))
                        (objs (fst (LoadCache_init modname dir kw st)))))"
  by (simp add: LoadCache_init_def IterableNamespace_def Let_def distinct_dict_update)

lemma LoadCache_call_distinct:
  "distinct (map fst (heap st (objs self)))
     \<Longrightarrow> distinct (map fst (heap (LoadCache_call self kw st) (objs self)))"
  by (simp add: LoadCache_call_def distinct_dict_update)

lemma txt_parts_eq:
  "txt_parts modname =
     butlast (split_sep CHR ''.'' modname) @ [last (split_sep CHR ''.'' modname) @ ''.txt'']"
proof -
  define segs where "segs = split_sep CHR ''.'' modname"
  have ne: "segs \<noteq> []" by (simp add: segs_def split_sep_nonempty)
  then obtain bs l where segs: "segs = bs @ [l]" by (metis rev_exhaust)
  show ?thesis
    unfolding txt_parts_def Let_def segs_def[symmetric]
    by (simp add: segs nth_append)
qed

lemma join_starts: "xs \<noteq> [] \<Longrightarrow> \<exists>rest. join sep xs = hd xs @ rest"
  by (induction sep xs rule: join.induct) auto

lemma Path_plain:
  assumes ne: "ps \<noteq> []"
    and ok: "\<forall>p\<in>set ps. p \<noteq> [] \<and> p \<noteq> ''.'' \<and> CHR ''/'' \<notin> set p"
  shows "Path (join ''/'' ps) = \<lparr>path_root = '''', path_parts = ps\<rparr>"
proof -
  from join_starts[OF ne] obtain rest where j: "join ''/'' ps = hd ps @ rest" by blast
  from ne ok have h: "hd ps \<noteq> []" "CHR ''/'' \<notin> set (hd ps)" by auto
  then obtain x xs where hx: "hd ps = x # xs" and x: "x \<noteq> CHR ''/''"
    by (cases "hd ps") auto
  have root: "take 1 (join ''/'' ps) \<noteq> ''/''" "take 2 (join ''/'' ps) \<noteq> ''//''"
    using x by (auto simp: j hx take_Cons' )
  have sp: "split_sep CHR ''/'' (join ''/'' ps) = ps"
    using split_sep_join[OF ne, of "CHR ''/''"] ok by simp
  have flt: "filter (\<lambda>p. p \<noteq> '''' \<and> p \<noteq> ''.'') ps = ps"
    using ok by (simp add: filter_id_conv)
  show ?thesis
    using root by (simp add: Path_def sp flt)
qed

lemma db_path_plain:
  assumes "plain_segments modname"
  shows "db_path_of dir modname = spec_manifest_path dir modname"
proof -
  define segs where "segs = split_sep CHR ''.'' modname"
  have ne: "segs \<noteq> []" by (simp add: segs_def split_sep_nonempty)
  have nodot: "\<forall>s\<in>set segs. CHR ''.'' \<notin> set s"
    by (auto simp: segs_def dest: split_sep_no_sep)
  have plain: "\<forall>s\<in>set segs. s \<noteq> [] \<and> CHR ''/'' \<notin> set s"
    using assms by (simp add: plain_segments_def segs_def list_all_iff)
  define ps where "ps = butlast segs @ [last segs @ ''.txt'']"
  have tp: "txt_parts modname = ps" by (simp add: txt_parts_eq ps_def segs_def)
  have lastin: "last segs \<in> set segs" using ne by simp
  have "\<forall>p\<in>set ps. p \<noteq> [] \<and> p \<noteq> ''.'' \<and> CHR ''/'' \<notin> set p"
  proof
    fix p assume "p \<in> set ps"
    then consider "p \<in> set (butlast segs)" | "p = last segs @ ''.txt''"
      by (auto simp: ps_def)
    then show "p \<noteq> [] \<and> p \<noteq> ''.'' \<and> CHR ''/'' \<notin> set p"
    proof cases
      case 1
      then have "p \<in> set segs" by (rule in_set_butlastD)
      with nodot plain show ?thesis by auto
    next
      case 2
      with plain lastin show ?thesis by auto
    qed
  qed
  then have "Path (join ''/'' ps) = \<lparr>path_root = '''', path_parts = ps\<rparr>"
    by (intro Path_plain) (simp_all add: ps_def)
  then show ?thesis
    by (simp add: db_path_of_def tp truediv_def spec_manifest_path_def Let_def segs_def[symmetric] ps_def)
qed

lemma split_sep_two: "c \<in> set s \<Longrightarrow> 2 \<le> length (split_sep c s)"
proof (induction s)
  case Nil
  then show ?case by simp
next
  case (Cons x s)
  have "split_sep c s \<noteq> []" by (rule split_sep_nonempty)
  then have "1 \<le> length (split_sep c s)" by (cases "split_sep c s") auto
  with Cons show ?case by (auto split: list.splits)
qed

lemma txt_parts_first:
  assumes "c = CHR ''.''" "c \<in> set modname"
  shows "txt_parts modname ! 0 = hd (split_sep c modname)"
proof -
  have "2 \<le> length (split_sep c modname)" using assms(2) by (rule split_sep_two)
  then obtain x y zs where "split_sep c modname = x # y # zs"
    by (cases "split_sep c modname"; cases "tl (split_sep c modname)") auto
  then show ?thesis
    by (simp add: txt_parts_eq assms(1)[symmetric])
qed

lemma map_of_dict_update:
  "map_of (dict_update d kw) k = (case map_of (rev kw) k of None \<Rightarrow> map_of d k | Some v \<Rightarrow> Some v)"
  unfolding dict_update_def
proof (induction kw arbitrary: d)
  case Nil
  show ?case by simp
next
  case (Cons p kw)
  obtain k' v' where p: "p = (k', v')" by (cases p)
  show ?case
    by (auto simp: p Cons.IH map_of_dict_setitem map_add_def split: option.splits)
qed

lemma xpp_cache_eval:
  "xpp_cache dir modname =
     (\<lparr>objs = 0, hutch_dir = dir, module = modname\<rparr>,
      \<lparr>heap = (\<lambda>a. [])(0 := [(''x'', PyInt 5)]), next_addr = Suc 0,
       sys_modules = [modname \<mapsto> 0, ''hutch_python.db'' \<mapsto> 0], files = Map.empty,
       can_open = (\<lambda>p. True)\<rparr>)"
  by (simp add: xpp_cache_def LoadCache_init_def IterableNamespace_def Let_def
      fresh_interpreter_def dict_update_def)

lemma path_xpp_db: "db_path_of \<lparr>path_root = ''/'', path_parts = [''reg'']\<rparr> ''xpp.db''
   = \<lparr>path_root = ''/'', path_parts = [''reg'', ''xpp'', ''db.txt'']\<rparr>"
  by (simp add: db_path_of_def txt_parts_def Path_def truediv_def)

lemma path_dot_db: "db_path_of \<lparr>path_root = ''/'', path_parts = [''reg'']\<rparr> ''.db''
   = \<lparr>path_root = ''/'', path_parts = [''db.txt'']\<rparr>"
  by (simp add: db_path_of_def txt_parts_def Path_def truediv_def)

lemma xpp_cache_fields:
  "hutch_dir (fst (xpp_cache dir modname)) = dir"
  "module (fst (xpp_cache dir modname)) = modname"
  "objs (fst (xpp_cache dir modname)) = 0"
  "heap (snd (xpp_cache dir modname)) 0 = [(''x'', PyInt 5)]"
  "files (snd (xpp_cache dir modname)) = Map.empty"
  "can_open (snd (xpp_cache dir modname)) = (\<lambda>p. True)"
  by (simp_all add: xpp_cache_eval)

lemma pad19: "replicate 19 CHR '' '' = ''                   ''"
  by (simp add: eval_nat_numeral)

section \<open>Dispatch: \<open>load\<close>\<close>

text \<open>
  C1. A header whose plugin cannot be resolved should be logged and skipped, with no exception
  leaving \<open>load\<close>. The code asks \<open>importlib\<close> for \<open>import_header\<close>, an attribute the
  standard library does not have, so the resolution of any header raises \<open>AttributeError\<close>;
  the handler next to it catches \<open>ImportError\<close> only. On the document with the single
  header \<open>beamline\<close>, in an installation without any plugin module, \<open>load\<close> ends with
  \<open>AttributeError\<close> and has logged nothing.
\<close>

theorem load_unresolvable_header_raises:
  "load (stdlib_importlib no_plugins) (parses_to [(''beamline'', ''info'')]) ''conf.yml''
     = (Inl AttributeError, [])"
  by (simp add: load_stdlib_nonempty)

text \<open>
  C2. For every configuration document, \<open>load\<close> should complete and return the mapping from
  each header to its collection. On the document with the single header \<open>a\<close>, whose plugin
  module is installed, \<open>load\<close> does not complete: it ends with \<open>AttributeError\<close>, raised by
  the missing attribute \<open>import_header\<close>. On the empty document it completes and returns
  \<open>None\<close>: the function has no \<open>return\<close> statement, although its docstring announces the
  dictionary of objects by header.
\<close>

theorem load_raises_or_returns_none:
  "load (stdlib_importlib three_plugins) (parses_to [(''a'', '''')]) ''conf.yml''
     = (Inl AttributeError, [])
   \<and> load (stdlib_importlib three_plugins) (parses_to ([] :: string document)) ''conf.yml''
     = (Inr PyNone, [])"
  by (simp add: load_stdlib_nonempty) (simp add: load_def parses_to_def)



section \<open>The cache: construction and accumulation\<close>

text \<open>
  C4. For every module path, manifest root, set of initial objects and interpreter state,
  after the construction of a \<open>LoadCache\<close> the entries of \<open>sys.modules\<close> under the module
  path and under \<open>hutch_python.db\<close> hold the same namespace object, which carries the initial
  objects; an attribute stored through either entry is read back through the other, and so
  is an object added through the cache.
\<close>

theorem LoadCache_init_aliases:
  "(case LoadCache_init modname dir kw st of
      (self, st') \<Rightarrow>
        sys_modules st' modname = Some (objs self)
        \<and> sys_modules st' ''hutch_python.db'' = Some (objs self)
        \<and> heap st' (objs self) = dict_update [] kw
        \<and> set_then_get modname ''hutch_python.db'' k v st' = Inr v
        \<and> set_then_get ''hutch_python.db'' modname k v st' = Inr v
        \<and> module_getattr modname k (LoadCache_call self [(k, v)] st') = Inr v
        \<and> module_getattr ''hutch_python.db'' k (LoadCache_call self [(k, v)] st') = Inr v)"
  by (simp add: LoadCache_init_def IterableNamespace_def Let_def set_then_get_def
      module_setattr_def module_getattr_def LoadCache_call_def map_of_dict_setitem
      dict_update_def)

text \<open>C4 on the cache for \<open>xpp.db\<close> in a fresh interpreter.\<close>

theorem LoadCache_init_aliases_witness:
  "(case LoadCache_init ''xpp.db'' None [(''x'', PyInt 5)] fresh_interpreter of
      (self, st') \<Rightarrow>
        sys_modules st' ''xpp.db'' = Some 0
        \<and> sys_modules st' ''hutch_python.db'' = Some 0
        \<and> objs self = 0
        \<and> heap st' 0 = [(''x'', PyInt 5)]
        \<and> set_then_get ''xpp.db'' ''hutch_python.db'' ''y'' (PyInt 7) st' = Inr (PyInt 7))"
  using LoadCache_init_aliases [where modname = "''xpp.db''" and dir = None
      and kw = "[(''x'', PyInt 5)]" and st = fresh_interpreter and k = "''y''" and v = "PyInt 7"]
  by (simp add: LoadCache_init_def IterableNamespace_def Let_def fresh_interpreter_def dict_update_def)

text \<open>
  C5. For every cache whose namespace is a dictionary (no name twice) and two different names
  \<open>a\<close> and \<open>b\<close>: after \<open>add(a=v1)\<close> and \<open>add(b=v2)\<close> the namespace holds both names with
  these values; after a further \<open>add(a=v3)\<close> the name \<open>a\<close> has the value \<open>v3\<close> and \<open>b\<close>
  still \<open>v2\<close>, the names and their order are as before that call, \<open>a\<close> occurs once, and
  every name other than \<open>a\<close> and \<open>b\<close> has the value it had at the start.
\<close>

theorem LoadCache_call_accumulates:
  assumes "distinct (map fst (heap st (objs self)))" and "a \<noteq> b"
  shows "(let st1 = LoadCache_call self [(a, v1)] st;
              st2 = LoadCache_call self [(b, v2)] st1;
              st3 = LoadCache_call self [(a, v3)] st2
          in map_of (heap st2 (objs self)) a = Some v1
             \<and> map_of (heap st2 (objs self)) b = Some v2
             \<and> map_of (heap st3 (objs self)) a = Some v3
             \<and> map_of (heap st3 (objs self)) b = Some v2
             \<and> map fst (heap st3 (objs self)) = map fst (heap st2 (objs self))
             \<and> distinct (map fst (heap st3 (objs self)))
             \<and> length (filter (\<lambda>e. fst e = a) (heap st3 (objs self))) = 1
             \<and> (\<forall>n. n \<noteq> a \<and> n \<noteq> b \<longrightarrow>
                   map_of (heap st3 (objs self)) n = map_of (heap st (objs self)) n))"
proof -
  define d0 where "d0 = heap st (objs self)"
  define d1 where "d1 = dict_setitem a v1 d0"
  define d2 where "d2 = dict_setitem b v2 d1"
  define d3 where "d3 = dict_setitem a v3 d2"
  have dist: "distinct (map fst d3)"
    using assms(1) by (simp add: d3_def d2_def d1_def d0_def distinct_dict_setitem)
  have ain: "a \<in> set (map fst d2)"
    by (simp add: d2_def d1_def keys_dict_setitem)
  have keys: "map fst d3 = map fst d2"
    using ain by (simp add: d3_def keys_dict_setitem)
  have "a \<in> set (map fst d3)" using ain keys by simp
  with dist have once: "length (filter (\<lambda>e. fst e = a) d3) = 1"
  proof (induction d3)
    case Nil
    then show ?case by simp
  next
    case (Cons e d)
    then show ?case by (auto simp: filter_empty_conv rev_image_eqI)
  qed
  show ?thesis
    using assms(2) dist keys once
    by (simp add: LoadCache_call_def dict_update_def Let_def map_of_dict_setitem
        d3_def d2_def d1_def d0_def)
qed

text \<open>C5 on the cache for \<open>xpp.db\<close>, with \<open>add(a=1)\<close>, \<open>add(b=2)\<close>, \<open>add(a=3)\<close>.\<close>

theorem LoadCache_call_accumulates_witness:
  "(case xpp_cache None ''xpp.db'' of
      (self, st) \<Rightarrow>
        distinct (map fst (heap st (objs self))) \<and> ''a'' \<noteq> ''b''
        \<and> heap (LoadCache_call self [(''b'', PyInt 2)] (LoadCache_call self [(''a'', PyInt 1)] st))
             (objs self)
           = [(''x'', PyInt 5), (''a'', PyInt 1), (''b'', PyInt 2)]
        \<and> heap (LoadCache_call self [(''a'', PyInt 3)]
                 (LoadCache_call self [(''b'', PyInt 2)] (LoadCache_call self [(''a'', PyInt 1)] st)))
             (objs self)
           = [(''x'', PyInt 5), (''a'', PyInt 3), (''b'', PyInt 2)])"
  using LoadCache_call_accumulates [where
      st = "snd (xpp_cache None ''xpp.db'')" and self = "fst (xpp_cache None ''xpp.db'')"
      and a = "''a''" and b = "''b''" and ?v1.0 = "PyInt 1" and ?v2.0 = "PyInt 2" and ?v3.0 = "PyInt 3"]
  by (simp add: xpp_cache_eval dict_update_def LoadCache_call_def)

section \<open>The cache: the manifest\<close>

text \<open>
  C6, as stated, fails: the module path \<open>.db\<close> has the dotted segments (empty) and \<open>db\<close>;
  joined by slashes they read \<open>/db.txt\<close>, an absolute path, which replaces the manifest
  root when the two are joined. With the root \<open>/reg\<close> the file is written at \<open>/db.txt\<close>,
  and nothing is written at the path under the root that the claim describes.
\<close>

theorem leading_dot_path_leaves_root:
  "files (snd (write_file ''2018-03-01 12:00:00'' (fst (xpp_cache (Some reg_dir) ''.db''))
            (snd (xpp_cache (Some reg_dir) ''.db''))))
     (spec_manifest_path reg_dir ''.db'') = None
   \<and> spec_manifest_path reg_dir ''.db''
       = \<lparr>path_root = ''/'', path_parts = [''reg'', '''', ''db.txt'']\<rparr>
   \<and> files (snd (write_file ''2018-03-01 12:00:00'' (fst (xpp_cache (Some reg_dir) ''.db''))
            (snd (xpp_cache (Some reg_dir) ''.db''))))
         \<lparr>path_root = ''/'', path_parts = [''db.txt'']\<rparr> \<noteq> None"
  by (simp add: xpp_cache_fields write_file_unfold reg_dir_def path_dot_db spec_manifest_path_def)

text \<open>
  C6, amended. For every cache with a manifest root whose module path has plain segments (no
  dotted segment is empty or contains a slash), and whose manifest can be opened for writing:
  \<open>write_file\<close> succeeds and writes at the manifest root extended by one component per
  segment, the last segment renamed to \<open><segment>.txt\<close>; no other file changes; and what
  the file holds afterwards does not depend on the files that existed before.
\<close>

theorem write_file_path:
  assumes "hutch_dir self = Some dir"
    and "plain_segments (module self)"
    and "can_open st (spec_manifest_path dir (module self))"
  shows "fst (write_file now self st) = Inr PyNone
         \<and> files (snd (write_file now self st)) (spec_manifest_path dir (module self)) \<noteq> None
         \<and> (\<forall>p. p \<noteq> spec_manifest_path dir (module self) \<longrightarrow>
                files (snd (write_file now self st)) p = files st p)
         \<and> files (snd (write_file now self (st\<lparr>files := old\<rparr>)))
               (spec_manifest_path dir (module self))
             = files (snd (write_file now self st)) (spec_manifest_path dir (module self))"
  using assms(3)
  by (simp add: write_file_unfold [OF assms(1)] db_path_plain [OF assms(2)])

text \<open>The amended C6 on the cache for \<open>xpp.db\<close> with the root \<open>/reg\<close>.\<close>

theorem write_file_path_witness:
  "hutch_dir (fst (xpp_cache (Some reg_dir) ''xpp.db'')) = Some reg_dir
   \<and> plain_segments (module (fst (xpp_cache (Some reg_dir) ''xpp.db'')))
   \<and> can_open (snd (xpp_cache (Some reg_dir) ''xpp.db''))
         (spec_manifest_path reg_dir (module (fst (xpp_cache (Some reg_dir) ''xpp.db''))))
   \<and> spec_manifest_path reg_dir (module (fst (xpp_cache (Some reg_dir) ''xpp.db'')))
       = \<lparr>path_root = ''/'', path_parts = [''reg'', ''xpp'', ''db.txt'']\<rparr>
   \<and> fst (write_file ''2018-03-01 12:00:00'' (fst (xpp_cache (Some reg_dir) ''xpp.db''))
            (snd (xpp_cache (Some reg_dir) ''xpp.db''))) = Inr PyNone
   \<and> files (snd (write_file ''2018-03-01 12:00:00'' (fst (xpp_cache (Some reg_dir) ''xpp.db''))
            (snd (xpp_cache (Some reg_dir) ''xpp.db''))))
         \<lparr>path_root = ''/'', path_parts = [''reg'', ''xpp'', ''db.txt'']\<rparr> \<noteq> None"
proof -
  have h1: "hutch_dir (fst (xpp_cache (Some reg_dir) ''xpp.db'')) = Some reg_dir"
    by (simp add: xpp_cache_fields)
  have h2: "plain_segments (module (fst (xpp_cache (Some reg_dir) ''xpp.db'')))"
    by (simp add: xpp_cache_fields plain_segments_def)
  have h3: "can_open (snd (xpp_cache (Some reg_dir) ''xpp.db''))
         (spec_manifest_path reg_dir (module (fst (xpp_cache (Some reg_dir) ''xpp.db''))))"
    by (simp add: xpp_cache_fields)
  have p: "spec_manifest_path reg_dir (module (fst (xpp_cache (Some reg_dir) ''xpp.db'')))
       = \<lparr>path_root = ''/'', path_parts = [''reg'', ''xpp'', ''db.txt'']\<rparr>"
    by (simp add: xpp_cache_fields spec_manifest_path_def reg_dir_def)
  show ?thesis
    using write_file_path [OF h1 h2 h3, where now = "''2018-03-01 12:00:00''"] h1 h2 h3 p
    by simp
qed

text \<open>
  C7, as stated, fails: for the entry \<open>x = 5\<close> the line written is the name followed by 19
  spaces, a space and \<open><class 'int'>\<close>. The format \<open>{:<20}\<close> aligns the name to the left
  and fills up after it; a name left-padded to 20 columns has the 19 spaces in front.
\<close>

theorem manifest_line_not_left_padded:
  "files (snd (write_file ''2018-03-01 12:00:00'' (fst (xpp_cache (Some reg_dir) ''xpp.db''))
            (snd (xpp_cache (Some reg_dir) ''xpp.db''))))
         \<lparr>path_root = ''/'', path_parts = [''reg'', ''xpp'', ''db.txt'']\<rparr>
     = Some (header_format ''xpp'' @ body_format ''2018-03-01 12:00:00''
             @ ''x                    <class '' @ [CHR 0x27] @ ''int'' @ [CHR 0x27] @ ''>'' @ nl)
   \<and> spec_manifest ''xpp'' ''2018-03-01 12:00:00'' [(''x'', PyInt 5)]
     = header_format ''xpp'' @ body_format ''2018-03-01 12:00:00''
       @ ''                   x <class '' @ [CHR 0x27] @ ''int'' @ [CHR 0x27] @ ''>'' @ nl
   \<and> files (snd (write_file ''2018-03-01 12:00:00'' (fst (xpp_cache (Some reg_dir) ''xpp.db''))
            (snd (xpp_cache (Some reg_dir) ''xpp.db''))))
         \<lparr>path_root = ''/'', path_parts = [''reg'', ''xpp'', ''db.txt'']\<rparr>
     \<noteq> Some (spec_manifest ''xpp'' ''2018-03-01 12:00:00'' [(''x'', PyInt 5)])"
  by (simp add: write_file_unfold xpp_cache_fields reg_dir_def path_xpp_db txt_parts_def
      entry_line_def line_format_def str_class_def spec_manifest_def spec_entry_line_def pad19)

text \<open>
  C7, amended. For every cache with a manifest root whose module path contains a dot, and
  whose manifest can be opened for writing, \<open>write_file\<close> succeeds and the file holds: the
  fixed header naming the first dotted segment of the module path (the top-level package),
  the line \<open>hutch-python last loaded on\<close> with the timestamp, the line
  \<open>with the following objects:\<close> and an empty line, and then for each entry of the
  namespace, in its order, one piece of text: the name left-aligned in 20 columns (filled up
  with spaces after the name, a longer name kept whole), a space, \<open>str\<close> of the class of the
  value, and a line break.
\<close>

theorem write_file_manifest_text:
  assumes "hutch_dir self = Some dir"
    and "CHR ''.'' \<in> set (module self)"
    and "can_open st (db_path_of dir (module self))"
  shows "write_file now self st =
           (Inr PyNone,
            st\<lparr>files := (files st)(db_path_of dir (module self) \<mapsto>
                  header_format (hd (split_sep CHR ''.'' (module self)))
                  @ ''hutch-python last loaded on '' @ now @ nl
                  @ ''with the following objects:'' @ nl @ nl
                  @ concat (map (\<lambda>(name, obj).
                               name @ replicate (20 - length name) CHR '' '' @ '' ''
                               @ str_class (class_of obj) @ nl)
                            (heap st (objs self))))\<rparr>)"
proof -
  have first: "txt_parts (module self) ! 0 = hd (split_sep CHR ''.'' (module self))"
    using assms(2) by (intro txt_parts_first) simp_all
  have lines: "map entry_line d =
      map (\<lambda>(name, obj). name @ replicate (20 - length name) CHR '' '' @ '' ''
                               @ str_class (class_of obj) @ nl) d" for d
    by (simp add: entry_line_def line_format_def case_prod_beta)
  show ?thesis
    using assms(3)
    by (simp add: write_file_unfold [OF assms(1)] first lines body_format_def)
qed

text \<open>The amended C7 on the cache for \<open>xpp.db\<close> with the root \<open>/reg\<close>.\<close>

theorem write_file_manifest_text_witness:
  "hutch_dir (fst (xpp_cache (Some reg_dir) ''xpp.db'')) = Some reg_dir
   \<and> CHR ''.'' \<in> set (module (fst (xpp_cache (Some reg_dir) ''xpp.db'')))
   \<and> can_open (snd (xpp_cache (Some reg_dir) ''xpp.db''))
         (db_path_of reg_dir (module (fst (xpp_cache (Some reg_dir) ''xpp.db''))))
   \<and> files (snd (write_file ''2018-03-01 12:00:00'' (fst (xpp_cache (Some reg_dir) ''xpp.db''))
            (snd (xpp_cache (Some reg_dir) ''xpp.db''))))
         \<lparr>path_root = ''/'', path_parts = [''reg'', ''xpp'', ''db.txt'']\<rparr>
       = Some (header_format ''xpp''
               @ ''hutch-python last loaded on 2018-03-01 12:00:00'' @ nl
               @ ''with the following objects:'' @ nl @ nl
               @ ''x                    <class '' @ [CHR 0x27] @ ''int'' @ [CHR 0x27] @ ''>'' @ nl)"
proof -
  have h1: "hutch_dir (fst (xpp_cache (Some reg_dir) ''xpp.db'')) = Some reg_dir"
    by (simp add: xpp_cache_fields)
  have h2: "CHR ''.'' \<in> set (module (fst (xpp_cache (Some reg_dir) ''xpp.db'')))"
    by (simp add: xpp_cache_fields)
  have h3: "can_open (snd (xpp_cache (Some reg_dir) ''xpp.db''))
         (db_path_of reg_dir (module (fst (xpp_cache (Some reg_dir) ''xpp.db''))))"
    by (simp add: xpp_cache_fields)
  have p: "db_path_of reg_dir ''xpp.db''
       = \<lparr>path_root = ''/'', path_parts = [''reg'', ''xpp'', ''db.txt'']\<rparr>"
    by (simp add: reg_dir_def path_xpp_db)
  show ?thesis
    using write_file_manifest_text [OF h1 h2 h3, where now = "''2018-03-01 12:00:00''"] h1 h2 h3
    by (simp add: xpp_cache_fields p str_class_def pad19)
qed

text \<open>
  When the module path has no dot, \<open>parts\<close> has one element, which already ends in \<open>.txt\<close>
  when the header is formatted: for the module path \<open>db\<close> the header names \<open>db.txt\<close>.
\<close>

lemma single_segment_header:
  "files (snd (write_file ''2018-03-01 12:00:00'' (fst (xpp_cache (Some reg_dir) ''db''))
            (snd (xpp_cache (Some reg_dir) ''db''))))
         \<lparr>path_root = ''/'', path_parts = [''reg'', ''db.txt'']\<rparr>
     = Some (header_format ''db.txt'' @ body_format ''2018-03-01 12:00:00''
             @ ''x                    <class '' @ [CHR 0x27] @ ''int'' @ [CHR 0x27] @ ''>'' @ nl)"
  by (simp add: write_file_unfold xpp_cache_fields reg_dir_def db_path_of_def txt_parts_def
      Path_def truediv_def entry_line_def line_format_def str_class_def pad19)

text \<open>
  C8. For every cache without a manifest root, \<open>write_file\<close> returns \<open>None\<close> and leaves
  the whole state, the files included, as it was.
\<close>

theorem write_file_no_root:
  "hutch_dir self = None \<Longrightarrow> write_file now self st = (Inr PyNone, st)"
  by (simp add: write_file_def)

text \<open>C8 on the cache for \<open>xpp.db\<close> built without a root.\<close>

theorem write_file_no_root_witness:
  "hutch_dir (fst (xpp_cache None ''xpp.db'')) = None
   \<and> write_file ''2018-03-01 12:00:00'' (fst (xpp_cache None ''xpp.db'')) (snd (xpp_cache None ''xpp.db''))
       = (Inr PyNone, snd (xpp_cache None ''xpp.db''))"
proof -
  have h: "hutch_dir (fst (xpp_cache None ''xpp.db'')) = None"
    by (simp add: xpp_cache_fields)
  show ?thesis using write_file_no_root [OF h] h by simp
qed

text \<open>
  C9. For every cache with a manifest root whose manifest can be opened for writing, two
  calls of \<open>write_file\<close> in a row, at the times \<open>t1\<close> and \<open>t2\<close>, both succeed, and the two
  texts written are the same text before the timestamp and the same text after it, both
  fixed by the module path and the entries of the namespace; they differ in the timestamp
  alone.
\<close>

theorem write_file_twice:
  assumes "hutch_dir self = Some dir"
    and "can_open st (db_path_of dir (module self))"
  shows "(case write_file t1 self st of
            (r1, st1) \<Rightarrow>
              (case write_file t2 self st1 of
                 (r2, st2) \<Rightarrow>
                   r1 = Inr PyNone \<and> r2 = Inr PyNone
                   \<and> files st1 (db_path_of dir (module self))
                       = Some (manifest_before (module self) @ t1
                               @ manifest_after (heap st (objs self)))
                   \<and> files st2 (db_path_of dir (module self))
                       = Some (manifest_before (module self) @ t2
                               @ manifest_after (heap st (objs self)))))"
  using assms(2)
  by (simp add: write_file_unfold [OF assms(1)] manifest_before_def manifest_after_def
      body_format_def)

text \<open>C9 on the cache for \<open>xpp.db\<close> with the root \<open>/reg\<close>, seven seconds apart.\<close>

theorem write_file_twice_witness:
  "hutch_dir (fst (xpp_cache (Some reg_dir) ''xpp.db'')) = Some reg_dir
   \<and> can_open (snd (xpp_cache (Some reg_dir) ''xpp.db''))
         (db_path_of reg_dir (module (fst (xpp_cache (Some reg_dir) ''xpp.db''))))
   \<and> (case write_file ''2018-03-01 12:00:00'' (fst (xpp_cache (Some reg_dir) ''xpp.db''))
              (snd (xpp_cache (Some reg_dir) ''xpp.db'')) of
         (r1, st1) \<Rightarrow>
           (case write_file ''2018-03-01 12:00:07'' (fst (xpp_cache (Some reg_dir) ''xpp.db'')) st1 of
              (r2, st2) \<Rightarrow>
                files st1 \<lparr>path_root = ''/'', path_parts = [''reg'', ''xpp'', ''db.txt'']\<rparr>
                  = Some (manifest_before ''xpp.db'' @ ''2018-03-01 12:00:00''
                          @ manifest_after [(''x'', PyInt 5)])
                \<and> files st2 \<lparr>path_root = ''/'', path_parts = [''reg'', ''xpp'', ''db.txt'']\<rparr>
                  = Some (manifest_before ''xpp.db'' @ ''2018-03-01 12:00:07''
                          @ manifest_after [(''x'', PyInt 5)])))"
proof -
  have h1: "hutch_dir (fst (xpp_cache (Some reg_dir) ''xpp.db'')) = Some reg_dir"
    by (simp add: xpp_cache_fields)
  have h2: "can_open (snd (xpp_cache (Some reg_dir) ''xpp.db''))
         (db_path_of reg_dir (module (fst (xpp_cache (Some reg_dir) ''xpp.db''))))"
    by (simp add: xpp_cache_fields)
  have p: "db_path_of reg_dir ''xpp.db''
       = \<lparr>path_root = ''/'', path_parts = [''reg'', ''xpp'', ''db.txt'']\<rparr>"
    by (simp add: reg_dir_def path_xpp_db)
  show ?thesis
    using write_file_twice [OF h1 h2, where ?t1.0 = "''2018-03-01 12:00:00''"
        and ?t2.0 = "''2018-03-01 12:00:07''"] h1 h2
    by (simp add: xpp_cache_fields p split: prod.splits)
qed

text \<open>
  C10. For every cache, time and state, \<open>write_file\<close> leaves the namespace objects (names,
  values and order), the table \<open>sys.modules\<close> and the rest of the interpreter state as they
  were, whether it succeeds or raises; it assigns no attribute of the cache, so the manifest
  root and the module path stay the same; the only file whose content can differ afterwards
  is the manifest of this cache.
\<close>

theorem write_file_frame:
  "heap (snd (write_file now self st)) = heap st
   \<and> next_addr (snd (write_file now self st)) = next_addr st
   \<and> sys_modules (snd (write_file now self st)) = sys_modules st
   \<and> can_open (snd (write_file now self st)) = can_open st
   \<and> (\<forall>p. files (snd (write_file now self st)) p \<noteq> files st p \<longrightarrow>
          (\<exists>dir. hutch_dir self = Some dir \<and> p = db_path_of dir (module self)))"
proof (cases "hutch_dir self")
  case None
  then show ?thesis by (simp add: write_file_def)
next
  case (Some dir)
  show ?thesis by (simp add: write_file_unfold [OF Some] Some)
qed

text \<open>C10 on the cache for \<open>xpp.db\<close> with the root \<open>/reg\<close>, where the manifest changes.\<close>

theorem write_file_frame_witness:
  "heap (snd (write_file ''2018-03-01 12:00:00'' (fst (xpp_cache (Some reg_dir) ''xpp.db''))
            (snd (xpp_cache (Some reg_dir) ''xpp.db''))))
     = heap (snd (xpp_cache (Some reg_dir) ''xpp.db''))
   \<and> sys_modules (snd (write_file ''2018-03-01 12:00:00'' (fst (xpp_cache (Some reg_dir) ''xpp.db''))
            (snd (xpp_cache (Some reg_dir) ''xpp.db''))))
     = sys_modules (snd (xpp_cache (Some reg_dir) ''xpp.db''))
   \<and> files (snd (write_file ''2018-03-01 12:00:00'' (fst (xpp_cache (Some reg_dir) ''xpp.db''))
            (snd (xpp_cache (Some reg_dir) ''xpp.db''))))
         \<lparr>path_root = ''/'', path_parts = [''reg'', ''xpp'', ''db.txt'']\<rparr>
       \<noteq> files (snd (xpp_cache (Some reg_dir) ''xpp.db''))
           \<lparr>path_root = ''/'', path_parts = [''reg'', ''xpp'', ''db.txt'']\<rparr>
   \<and> hutch_dir (fst (xpp_cache (Some reg_dir) ''xpp.db'')) = Some reg_dir
   \<and> db_path_of reg_dir (module (fst (xpp_cache (Some reg_dir) ''xpp.db'')))
       = \<lparr>path_root = ''/'', path_parts = [''reg'', ''xpp'', ''db.txt'']\<rparr>"
  using write_file_frame [where now = "''2018-03-01 12:00:00''"
      and self = "fst (xpp_cache (Some reg_dir) ''xpp.db'')"
      and st = "snd (xpp_cache (Some reg_dir) ''xpp.db'')"]
  by (simp add: xpp_cache_fields write_file_unfold reg_dir_def path_xpp_db)

end
